theory Spec2Isabelle
  imports Main "HOL-Library.Sublist" "HOL-Library.List_Lexorder" "HOL-Library.Char_ord"
begin

section \<open>Python values\<close>

text \<open>
  The profile dictionaries the monitor handles hold JSON scalars and database cells:
  \<open>None\<close>, booleans, unbounded integers and strings. Floats, arrays and objects are not
  part of this embedding. Strings are lists of code points below 256.
\<close>

datatype pyval = PNone | PBool bool | PInt int | PStr string

type_synonym pydict = "string \<rightharpoonup> pyval"

text \<open>\<open>d.get(k)\<close>: the value stored under \<open>k\<close>, \<open>None\<close> when the key is absent.\<close>

definition dict_get :: "pydict \<Rightarrow> string \<Rightarrow> pyval" where
  "dict_get d k = (case d k of None \<Rightarrow> PNone | Some v \<Rightarrow> v)"

datatype error = KeyError string | OverflowError | IntegrityError

subsection \<open>Text helpers of the Python runtime\<close>

definition digit_char :: "nat \<Rightarrow> char" where
  "digit_char d = char_of (of_char CHR ''0'' + d)"

fun str_nat :: "nat \<Rightarrow> string" where
  "str_nat n = (if n < 10 then [digit_char n] else str_nat (n div 10) @ [digit_char (n mod 10)])"

declare str_nat.simps [simp del]

text \<open>\<open>str(i)\<close> for an integer, and the format \<open>{i:+d}\<close> that always shows the sign.\<close>

definition str_int :: "int \<Rightarrow> string" where
  "str_int i = (if i < 0 then CHR ''-'' # str_nat (nat (- i)) else str_nat (nat i))"

definition format_signed :: "int \<Rightarrow> string" where
  "format_signed i = (if i < 0 then str_int i else CHR ''+'' # str_int i)"

text \<open>\<open>str(v)\<close>, as an f-string renders a value.\<close>

fun py_str :: "pyval \<Rightarrow> string" where
  "py_str PNone = ''None''"
| "py_str (PBool b) = (if b then ''True'' else ''False'')"
| "py_str (PInt i) = str_int i"
| "py_str (PStr s) = s"

text \<open>\<open>bool(v)\<close>: the truth value of a Python object.\<close>

fun py_bool :: "pyval \<Rightarrow> bool" where
  "py_bool PNone = False"
| "py_bool (PBool b) = b"
| "py_bool (PInt i) = (i \<noteq> 0)"
| "py_bool (PStr s) = (s \<noteq> [])"

text \<open>\<open>a == b\<close>: booleans compare as the integers 0 and 1, other types only with themselves.\<close>

fun py_eq :: "pyval \<Rightarrow> pyval \<Rightarrow> bool" where
  "py_eq PNone PNone = True"
| "py_eq (PBool a) (PBool b) = (a = b)"
| "py_eq (PBool a) (PInt j) = ((if a then 1 else 0) = j)"
| "py_eq (PInt i) (PBool b) = (i = (if b then 1 else 0))"
| "py_eq (PInt i) (PInt j) = (i = j)"
| "py_eq (PStr s) (PStr t) = (s = t)"
| "py_eq _ _ = False"

text \<open>
  \<open>str.isspace\<close> on code points below 256, and \<open>str.strip()\<close>, \<open>str.lstrip(chars)\<close>,
  \<open>str.lower()\<close>.
\<close>

definition is_space :: "char \<Rightarrow> bool" where
  "is_space c = (let n = (of_char c :: nat) in
     (9 \<le> n \<and> n \<le> 13) \<or> (28 \<le> n \<and> n \<le> 32) \<or> n = 133 \<or> n = 160)"

definition lstrip_chars :: "(char \<Rightarrow> bool) \<Rightarrow> string \<Rightarrow> string" where
  "lstrip_chars p s = dropWhile p s"

definition strip :: "string \<Rightarrow> string" where
  "strip s = rev (dropWhile is_space (rev (dropWhile is_space s)))"

definition lower_char :: "char \<Rightarrow> char" where
  "lower_char c = (let n = (of_char c :: nat) in
     if (65 \<le> n \<and> n \<le> 90) \<or> (192 \<le> n \<and> n \<le> 222 \<and> n \<noteq> 215) then char_of (n + 32) else c)"

definition lower :: "string \<Rightarrow> string" where
  "lower s = map lower_char s"

subsection \<open>\<open>int(value)\<close>\<close>

text \<open>
  \<open>int(v)\<close> on a string accepts surrounding whitespace, one optional sign and decimal
  digits in groups separated by single underscores; everything else is a \<open>ValueError\<close>.
  \<open>int_of_str\<close> returns \<open>None\<close> where Python raises. The interpreter's configurable
  limit on the number of digits is not modelled.
\<close>

definition is_digit :: "char \<Rightarrow> bool" where
  "is_digit c = (let n = (of_char c :: nat) in 48 \<le> n \<and> n \<le> 57)"

definition digit_val :: "char \<Rightarrow> int" where
  "digit_val c = int (of_char c) - 48"

text \<open>
  \<open>digits_value acc after_digit s\<close>: reads the digit groups of \<open>s\<close>; \<open>after_digit\<close> says
  that the previous character was a digit (so an underscore may follow).
\<close>

fun digits_value :: "int \<Rightarrow> bool \<Rightarrow> string \<Rightarrow> int option" where
  "digits_value acc after_digit [] = (if after_digit then Some acc else None)"
| "digits_value acc after_digit (c # cs) =
     (if is_digit c then digits_value (10 * acc + digit_val c) True cs
      else if c = CHR ''_'' \<and> after_digit then
        (case cs of [] \<Rightarrow> None
         | d # _ \<Rightarrow> if is_digit d then digits_value acc False cs else None)
      else None)"

definition int_of_str :: "string \<Rightarrow> int option" where
  "int_of_str s =
     (case strip s of
        [] \<Rightarrow> None
      | c # cs \<Rightarrow>
          if c = CHR ''-'' then map_option uminus (digits_value 0 False cs)
          else if c = CHR ''+'' then digits_value 0 False cs
          else digits_value 0 False (c # cs))"

text \<open>
  \<open>py_int\<close> is \<open>int(v)\<close> with \<open>TypeError\<close> and \<open>ValueError\<close> as \<open>None\<close>: both callers
  catch exactly these two.
\<close>

fun py_int :: "pyval \<Rightarrow> int option" where
  "py_int PNone = None"
| "py_int (PBool b) = Some (if b then 1 else 0)"
| "py_int (PInt i) = Some i"
| "py_int (PStr s) = int_of_str s"

section \<open>Change detection (monitor.py)\<close>

definition NUMERIC_FIELDS :: "string list" where
  "NUMERIC_FIELDS = [''followers'', ''following'', ''likes'', ''videos_count'']"

definition TEXT_FIELDS :: "string list" where
  "TEXT_FIELDS = [''nickname'', ''bio'']"

definition BOOLEAN_FIELDS :: "string list" where
  "BOOLEAN_FIELDS = [''verified'']"

definition as_int :: "pyval \<Rightarrow> int option" where
  "as_int v = (case v of PNone \<Rightarrow> None | _ \<Rightarrow> py_int v)"

record event =
  metric :: string
  old_value :: pyval
  new_value :: pyval
  delta :: pyval
  message :: string

text \<open>The three loops of \<open>detect_profile_changes\<close>, each appending to \<open>events\<close>.\<close>

fun numeric_loop :: "pydict \<Rightarrow> pydict \<Rightarrow> string list \<Rightarrow> event list \<Rightarrow> event list" where
  "numeric_loop previous current [] events = events"
| "numeric_loop previous current (field # rest) events =
     (case (as_int (dict_get previous field), as_int (dict_get current field)) of
        (Some old, Some new) \<Rightarrow>
          if old = new then numeric_loop previous current rest events
          else numeric_loop previous current rest
                 (events @
                  [\<lparr>metric = field, old_value = PInt old, new_value = PInt new,
                    delta = PInt (new - old),
                    message = field @ '' changed from '' @ str_int old @ '' to '' @ str_int new
                      @ '' ('' @ format_signed (new - old) @ '').''\<rparr>])
      | _ \<Rightarrow> numeric_loop previous current rest events)"

fun text_loop :: "pydict \<Rightarrow> pydict \<Rightarrow> string list \<Rightarrow> event list \<Rightarrow> event list" where
  "text_loop previous current [] events = events"
| "text_loop previous current (field # rest) events =
     (let old = dict_get previous field; new = dict_get current field in
      if py_eq old new then text_loop previous current rest events
      else text_loop previous current rest
             (events @
              [\<lparr>metric = field, old_value = old, new_value = new, delta = PNone,
                message = field @ '' changed.''\<rparr>]))"

fun boolean_loop :: "pydict \<Rightarrow> pydict \<Rightarrow> string list \<Rightarrow> event list \<Rightarrow> event list" where
  "boolean_loop previous current [] events = events"
| "boolean_loop previous current (field # rest) events =
     (let old = py_bool (dict_get previous field); new = py_bool (dict_get current field) in
      if old = new then boolean_loop previous current rest events
      else boolean_loop previous current rest
             (events @
              [\<lparr>metric = field, old_value = PBool old, new_value = PBool new, delta = PNone,
                message = field @ '' changed from '' @ py_str (PBool old) @ '' to ''
                  @ py_str (PBool new) @ ''.''\<rparr>]))"

definition detect_profile_changes :: "pydict option \<Rightarrow> pydict \<Rightarrow> event list" where
  "detect_profile_changes previous current =
     (case previous of
        None \<Rightarrow> []
      | Some prev \<Rightarrow>
          boolean_loop prev current BOOLEAN_FIELDS
            (text_loop prev current TEXT_FIELDS
              (numeric_loop prev current NUMERIC_FIELDS [])))"

text \<open>What one iteration of each loop appends, taken alone.\<close>

definition numeric_event :: "pydict \<Rightarrow> pydict \<Rightarrow> string \<Rightarrow> event list" where
  "numeric_event previous current field = numeric_loop previous current [field] []"

definition text_event :: "pydict \<Rightarrow> pydict \<Rightarrow> string \<Rightarrow> event list" where
  "text_event previous current field = text_loop previous current [field] []"

definition boolean_event :: "pydict \<Rightarrow> pydict \<Rightarrow> string \<Rightarrow> event list" where
  "boolean_event previous current field = boolean_loop previous current [field] []"

section \<open>The durable store (storage.py)\<close>

text \<open>
  The database is a record of its five tables, each a list of rows in insertion order,
  and of the \<open>AUTOINCREMENT\<close> counters, which a \<open>DELETE\<close> does not reset. Every method
  that reads the clock takes the reading \<open>utc_now_iso()\<close> returned as its first
  argument.
\<close>

record watch_row =
  w_username :: string
  w_created_at :: string
  w_active :: int
  w_last_checked_at :: "string option"
  w_last_error :: "string option"

record snapshot_row =
  s_id :: nat
  s_username :: string
  s_checked_at :: string
  s_nickname :: "string option"
  s_bio :: "string option"
  s_verified :: int
  s_followers :: "int option"
  s_following :: "int option"
  s_likes :: "int option"
  s_videos_count :: "int option"
  s_profile_url :: string

record event_row =
  e_id :: nat
  e_username :: string
  e_detected_at :: string
  e_metric :: string
  e_old_value :: "string option"
  e_new_value :: "string option"
  e_delta :: "int option"
  e_message :: string

record failure_row =
  f_id :: nat
  f_username :: string
  f_checked_at :: string
  f_error :: string

record setting_row =
  st_key :: string
  st_value :: string
  st_updated_at :: string

record store =
  watch_accounts :: "watch_row list"
  snapshots :: "snapshot_row list"
  events :: "event_row list"
  failures :: "failure_row list"
  settings :: "setting_row list"
  snapshots_seq :: nat
  events_seq :: nat
  failures_seq :: nat

text \<open>The database right after \<open>_ensure_schema\<close> has created its tables.\<close>

definition initial_store :: store where
  "initial_store = \<lparr>watch_accounts = [], snapshots = [], events = [], failures = [],
     settings = [], snapshots_seq = 0, events_seq = 0, failures_seq = 0\<rparr>"

subsection \<open>Binding Python values to SQL parameters\<close>

text \<open>
  The \<open>sqlite3\<close> module binds \<open>None\<close> as \<open>NULL\<close>, a boolean as the integer 0 or 1, an
  integer as a 64-bit \<open>INTEGER\<close> (raising \<open>OverflowError\<close> outside that range) and a
  string as \<open>TEXT\<close>. A column of \<open>TEXT\<close> affinity stores an integer as its decimal text.
  A \<open>NULL\<close> in a \<open>NOT NULL\<close> column is an \<open>IntegrityError\<close>. An exception inside a
  \<open>with conn:\<close> block rolls the transaction back: the methods below return \<open>Inl\<close> and
  no store, and the caller goes on with the store it had.
\<close>

definition and_then :: "'e + 'a \<Rightarrow> ('a \<Rightarrow> 'e + 'b) \<Rightarrow> 'e + 'b" where
  "and_then r f = (case r of Inl e \<Rightarrow> Inl e | Inr x \<Rightarrow> f x)"

definition sqlite_int_ok :: "int \<Rightarrow> bool" where
  "sqlite_int_ok i = (- (2 ^ 63) \<le> i \<and> i < 2 ^ 63)"

definition bind_integer :: "int option \<Rightarrow> error + int option" where
  "bind_integer v =
     (case v of
        None \<Rightarrow> Inr None
      | Some i \<Rightarrow> if sqlite_int_ok i then Inr (Some i) else Inl OverflowError)"

fun bind_text :: "pyval \<Rightarrow> error + string option" where
  "bind_text PNone = Inr None"
| "bind_text (PBool b) = Inr (Some (str_int (if b then 1 else 0)))"
| "bind_text (PInt i) = (if sqlite_int_ok i then Inr (Some (str_int i)) else Inl OverflowError)"
| "bind_text (PStr s) = Inr (Some s)"

definition not_null :: "'a option \<Rightarrow> error + 'a" where
  "not_null v = (case v of None \<Rightarrow> Inl IntegrityError | Some x \<Rightarrow> Inr x)"

definition to_int :: "pyval \<Rightarrow> int option" where
  "to_int v = (case v of PNone \<Rightarrow> None | _ \<Rightarrow> py_int v)"


subsection \<open>Statements on \<open>watch_accounts\<close>\<close>

text \<open>\<open>INSERT INTO watch_accounts ... VALUES (?, ?, 1) ON CONFLICT(username) DO NOTHING\<close>\<close>

definition insert_account_or_nothing :: "string \<Rightarrow> string \<Rightarrow> store \<Rightarrow> store" where
  "insert_account_or_nothing username now st =
     (if username \<in> set (map w_username (watch_accounts st)) then st
      else st\<lparr>watch_accounts := watch_accounts st @
             [\<lparr>w_username = username, w_created_at = now, w_active = 1,
               w_last_checked_at = None, w_last_error = None\<rparr>]\<rparr>)"

text \<open>\<open>UPDATE watch_accounts SET last_checked_at = ?, last_error = ? WHERE username = ?\<close>\<close>

definition update_account_checked :: "string \<Rightarrow> string option \<Rightarrow> string \<Rightarrow> store \<Rightarrow> store" where
  "update_account_checked checked_at err username st =
     st\<lparr>watch_accounts :=
          map (\<lambda>r. if w_username r = username
                    then r\<lparr>w_last_checked_at := Some checked_at, w_last_error := err\<rparr> else r)
            (watch_accounts st)\<rparr>"

definition add_watch_account :: "string \<Rightarrow> string \<Rightarrow> store \<Rightarrow> store" where
  "add_watch_account now username st =
     (if username \<in> set (map w_username (watch_accounts st))
      then st\<lparr>watch_accounts :=
             map (\<lambda>r. if w_username r = username then r\<lparr>w_active := 1\<rparr> else r)
               (watch_accounts st)\<rparr>
      else st\<lparr>watch_accounts := watch_accounts st @
             [\<lparr>w_username = username, w_created_at = now, w_active = 1,
               w_last_checked_at = None, w_last_error = None\<rparr>]\<rparr>)"

text \<open>
  \<open>deactivate_watch_account\<close> returns \<open>cursor.rowcount > 0\<close>; the row count of an
  \<open>UPDATE\<close> is the number of rows its \<open>WHERE\<close> clause selects.
\<close>

definition deactivate_watch_account :: "string \<Rightarrow> store \<Rightarrow> bool \<times> store" where
  "deactivate_watch_account username st =
     (let rowcount = length (filter (\<lambda>r. w_username r = username) (watch_accounts st));
          st' = st\<lparr>watch_accounts :=
                  map (\<lambda>r. if w_username r = username then r\<lparr>w_active := 0\<rparr> else r)
                    (watch_accounts st)\<rparr>
      in (rowcount > 0, st'))"

text \<open>
  \<open>COLLATE NOCASE\<close> folds the 26 upper-case ASCII letters before comparing; rows whose
  keys compare equal keep their table order here.
\<close>

definition nocase :: "string \<Rightarrow> string" where
  "nocase s = map (\<lambda>c. let n = (of_char c :: nat) in
                       if 65 \<le> n \<and> n \<le> 90 then char_of (n + 32) else c) s"

definition list_watch_accounts :: "bool \<Rightarrow> store \<Rightarrow> watch_row list" where
  "list_watch_accounts active_only st =
     sort_key (\<lambda>r. nocase (w_username r))
       (filter (\<lambda>r. \<not> active_only \<or> w_active r = 1) (watch_accounts st))"

subsection \<open>Snapshots\<close>

definition opt_text :: "string option \<Rightarrow> pyval" where
  "opt_text v = (case v of None \<Rightarrow> PNone | Some s \<Rightarrow> PStr s)"

definition opt_int :: "int option \<Rightarrow> pyval" where
  "opt_int v = (case v of None \<Rightarrow> PNone | Some i \<Rightarrow> PInt i)"

definition row_to_dict :: "snapshot_row \<Rightarrow> pydict" where
  "row_to_dict r = map_of
     [(''username'', PStr (s_username r)), (''checked_at'', PStr (s_checked_at r)),
      (''nickname'', opt_text (s_nickname r)), (''bio'', opt_text (s_bio r)),
      (''verified'', PInt (s_verified r)), (''followers'', opt_int (s_followers r)),
      (''following'', opt_int (s_following r)), (''likes'', opt_int (s_likes r)),
      (''videos_count'', opt_int (s_videos_count r)), (''profile_url'', PStr (s_profile_url r))]"

text \<open>\<open>SELECT ... FROM snapshots WHERE username = ? ORDER BY id DESC LIMIT 1\<close>\<close>

definition get_latest_snapshot :: "string \<Rightarrow> store \<Rightarrow> pydict option" where
  "get_latest_snapshot username st =
     (case filter (\<lambda>r. s_username r = username) (snapshots st) of
        [] \<Rightarrow> None
      | r # rs \<Rightarrow> Some (row_to_dict (foldl (\<lambda>best x. if s_id best < s_id x then x else best) r rs)))"

text \<open>The \<open>INSERT INTO snapshots\<close> of \<open>save_snapshot\<close>, with its ten parameters.\<close>

definition insert_snapshot :: "string \<Rightarrow> string \<Rightarrow> pydict \<Rightarrow> store \<Rightarrow> error + store" where
  "insert_snapshot username checked_at profile st =
     and_then (bind_text (dict_get profile ''nickname'')) (\<lambda>nickname.
     and_then (bind_text (dict_get profile ''bio'')) (\<lambda>bio.
     and_then (bind_integer (to_int (dict_get profile ''followers''))) (\<lambda>followers.
     and_then (bind_integer (to_int (dict_get profile ''following''))) (\<lambda>following.
     and_then (bind_integer (to_int (dict_get profile ''likes''))) (\<lambda>likes.
     and_then (bind_integer (to_int (dict_get profile ''videos_count''))) (\<lambda>videos_count.
     and_then (bind_text
        (if py_bool (dict_get profile ''profile_url'') then dict_get profile ''profile_url''
         else PStr (''https://www.tiktok.com/@'' @ username))) (\<lambda>url.
     and_then (not_null url) (\<lambda>profile_url.
       Inr (st\<lparr>snapshots := snapshots st @
              [\<lparr>s_id = Suc (snapshots_seq st), s_username = username,
                s_checked_at = checked_at, s_nickname = nickname, s_bio = bio,
                s_verified = (if py_bool (dict_get profile ''verified'') then 1 else 0),
                s_followers = followers, s_following = following, s_likes = likes,
                s_videos_count = videos_count, s_profile_url = profile_url\<rparr>],
             snapshots_seq := Suc (snapshots_seq st)\<rparr>)))))))))"

text \<open>
  \<open>save_snapshot\<close>: three statements in one transaction. \<open>profile["username"]\<close> raises
  \<open>KeyError\<close> when the key is missing.
\<close>

definition save_snapshot :: "string \<Rightarrow> pydict \<Rightarrow> store \<Rightarrow> error + store" where
  "save_snapshot now profile st =
     (case profile ''username'' of
        None \<Rightarrow> Inl (KeyError ''username'')
      | Some u \<Rightarrow>
          let username = py_str u; checked_at = now in
          and_then (insert_snapshot username checked_at profile
                      (insert_account_or_nothing username checked_at st))
            (\<lambda>st2. Inr (update_account_checked checked_at None username st2)))"


subsection \<open>Events and failures\<close>

text \<open>
  \<open>record_events\<close> gets \<open>current["username"]\<close> as it is in the profile, so the user name
  is a Python value here. \<open>executemany\<close> inserts the rows one after the other.
\<close>

definition opt_str :: "pyval \<Rightarrow> string option" where
  "opt_str v = (case v of PNone \<Rightarrow> None | _ \<Rightarrow> Some (py_str v))"

fun insert_events :: "string \<Rightarrow> pyval \<Rightarrow> event list \<Rightarrow> store \<Rightarrow> error + store" where
  "insert_events detected_at username [] st = Inr st"
| "insert_events detected_at username (ev # evs) st =
     and_then (bind_text username) (\<lambda>u.
     and_then (bind_integer (to_int (delta ev))) (\<lambda>d.
     and_then (not_null u) (\<lambda>name.
       insert_events detected_at username evs
         (st\<lparr>events := events st @
              [\<lparr>e_id = Suc (events_seq st), e_username = name, e_detected_at = detected_at,
                e_metric = metric ev, e_old_value = opt_str (old_value ev),
                e_new_value = opt_str (new_value ev), e_delta = d,
                e_message = message ev\<rparr>],
             events_seq := Suc (events_seq st)\<rparr>))))"

definition record_events :: "string \<Rightarrow> pyval \<Rightarrow> event list \<Rightarrow> store \<Rightarrow> error + store" where
  "record_events now username evs st =
     (if evs = [] then Inr st else insert_events now username evs st)"

definition insert_failure :: "string \<Rightarrow> string \<Rightarrow> string \<Rightarrow> store \<Rightarrow> store" where
  "insert_failure username checked_at err st =
     st\<lparr>failures := failures st @
          [\<lparr>f_id = Suc (failures_seq st), f_username = username, f_checked_at = checked_at,
            f_error = err\<rparr>],
        failures_seq := Suc (failures_seq st)\<rparr>"

definition record_failure :: "string \<Rightarrow> string \<Rightarrow> string \<Rightarrow> store \<Rightarrow> store" where
  "record_failure now username err st =
     (let checked_at = now in
      update_account_checked checked_at (Some err) username
        (insert_failure username checked_at err
          (insert_account_or_nothing username checked_at st)))"

subsection \<open>Settings and the reset\<close>

definition get_setting :: "string \<Rightarrow> store \<Rightarrow> string option" where
  "get_setting key st = map_option st_value (find (\<lambda>r. st_key r = key) (settings st))"

definition set_setting :: "string \<Rightarrow> string \<Rightarrow> string \<Rightarrow> store \<Rightarrow> store" where
  "set_setting now key val st =
     (if key \<in> set (map st_key (settings st))
      then st\<lparr>settings :=
             map (\<lambda>r. if st_key r = key then r\<lparr>st_value := val, st_updated_at := now\<rparr> else r)
               (settings st)\<rparr>
      else st\<lparr>settings := settings st @
             [\<lparr>st_key = key, st_value = val, st_updated_at = now\<rparr>]\<rparr>)"

text \<open>
  \<open>clear_monitor_data\<close> runs four \<open>DELETE\<close> statements through \<open>executescript\<close>, which
  opens no transaction: each statement is committed by itself.
  \<open>clear_monitor_data_commits\<close> lists the database states committed on the way, and
  \<open>clear_monitor_data\<close> is the last of them.
\<close>

definition clear_monitor_data_commits :: "store \<Rightarrow> store list" where
  "clear_monitor_data_commits st =
     (let st1 = st\<lparr>events := []\<rparr>;
          st2 = st1\<lparr>failures := []\<rparr>;
          st3 = st2\<lparr>snapshots := []\<rparr>;
          st4 = st3\<lparr>watch_accounts := []\<rparr>
      in [st1, st2, st3, st4])"

definition clear_monitor_data :: "store \<Rightarrow> store" where
  "clear_monitor_data st = last (clear_monitor_data_commits st)"

section \<open>The profile fetcher (scraper.py)\<close>

text \<open>
  An exception of the fetcher is a \<open>TikTokScrapeError\<close> with its message, or another
  \<open>Exception\<close> with its class name and its text.
\<close>

datatype fetch_error = TikTokScrapeError string | OtherException string string

definition handle_char :: "char \<Rightarrow> bool" where
  "handle_char c = (let n = (of_char c :: nat) in
     (65 \<le> n \<and> n \<le> 90) \<or> (97 \<le> n \<and> n \<le> 122) \<or> (48 \<le> n \<and> n \<le> 57)
     \<or> c = CHR ''.'' \<or> c = CHR ''_'')"

text \<open>\<open>re.fullmatch(r"[A-Za-z0-9._]{2,24}", s)\<close>\<close>

definition handle_match :: "string \<Rightarrow> bool" where
  "handle_match s = (2 \<le> length s \<and> length s \<le> 24 \<and> list_all handle_char s)"

text \<open>\<open>normalize_username\<close>: \<open>Inl msg\<close> is \<open>raise TikTokScrapeError(msg)\<close>.\<close>

definition normalize_username :: "string \<Rightarrow> string + string" where
  "normalize_username username =
     (let normalized = lower (lstrip_chars (\<lambda>c. c = CHR ''@'') (strip username)) in
      if \<not> handle_match normalized
      then Inl ''Please enter a valid TikTok username.''
      else Inr normalized)"

text \<open>
  The normal form as the specification words it, for comparison: the input without one
  leading \<open>@\<close>, in lower case.
\<close>

definition spec_normal_form :: "string \<Rightarrow> string" where
  "spec_normal_form s =
     lower (case s of [] \<Rightarrow> [] | c # cs \<Rightarrow> if c = CHR ''@'' then cs else c # cs)"

text \<open>
  The world outside the program: \<open>clock n\<close> is what the \<open>n\<close>-th reading of the wall clock
  returns, and \<open>scrape n handle\<close> is what downloading and extracting the profile page of a
  normalized handle gives at that point (lines 96 to 111 of \<open>fetch_tiktok_profile\<close>).
\<close>

record env =
  clock :: "nat \<Rightarrow> string"
  scrape :: "nat \<Rightarrow> string \<Rightarrow> fetch_error + pydict"

definition fetch_tiktok_profile :: "env \<Rightarrow> nat \<Rightarrow> string \<Rightarrow> fetch_error + pydict" where
  "fetch_tiktok_profile ev n username =
     (case normalize_username username of
        Inl msg \<Rightarrow> Inl (TikTokScrapeError msg)
      | Inr normalized \<Rightarrow> scrape ev n normalized)"

section \<open>The monitor service (monitor.py)\<close>

record summary =
  sum_status :: string
  sum_accounts :: nat
  sum_checked :: nat
  sum_failed :: nat

text \<open>
  The service object. \<open>run_lock\<close> is true while the lock is held; \<open>thread\<close> is \<open>None\<close>
  before the first start and \<open>Some alive\<close> afterwards. \<open>ticks\<close> counts the steps at which
  the program has consulted the outside world and indexes \<open>clock\<close> and \<open>scrape\<close>.
\<close>

record service =
  store :: store
  interval_seconds :: int
  stop_event :: bool
  run_lock :: bool
  thread :: "bool option"
  last_run_started_at :: "string option"
  last_run_finished_at :: "string option"
  last_run_summary :: "summary option"
  ticks :: nat

text \<open>\<open>TikTokMonitorService.__init__\<close>\<close>

definition initial_service :: "store \<Rightarrow> int \<Rightarrow> service" where
  "initial_service st interval =
     \<lparr>store = st, interval_seconds = interval, stop_event = False, run_lock = False,
      thread = None, last_run_started_at = None, last_run_finished_at = None,
      last_run_summary = None, ticks = 0\<rparr>"

definition utc_now_iso :: "env \<Rightarrow> service \<Rightarrow> string" where
  "utc_now_iso ev s = clock ev (ticks s)"

definition tick :: "service \<Rightarrow> service" where
  "tick s = s\<lparr>ticks := Suc (ticks s)\<rparr>"

definition is_running :: "service \<Rightarrow> bool" where
  "is_running s = (case thread s of None \<Rightarrow> False | Some alive \<Rightarrow> alive)"

text \<open>The text \<open>check_account\<close> records for an exception of the fetcher.\<close>

fun failure_text :: "fetch_error \<Rightarrow> string" where
  "failure_text (TikTokScrapeError msg) = msg"
| "failure_text (OtherException cls msg) = cls @ '': '' @ msg"

text \<open>
  \<open>check_account\<close> returns \<open>Inr ok\<close>, or \<open>Inl e\<close> when an exception leaves it: the two
  \<open>except\<close> clauses cover the call of the fetcher only.
\<close>

definition check_account :: "env \<Rightarrow> string \<Rightarrow> service \<Rightarrow> (error + bool) \<times> service" where
  "check_account ev username s =
     (let previous = get_latest_snapshot username (store s) in
      case fetch_tiktok_profile ev (ticks s) username of
        Inl (TikTokScrapeError msg) \<Rightarrow>
          (Inr False, tick (s\<lparr>store := record_failure (utc_now_iso ev s) username msg (store s)\<rparr>))
      | Inl (OtherException cls msg) \<Rightarrow>
          (Inr False,
           tick (s\<lparr>store := record_failure (utc_now_iso ev s) username (cls @ '': '' @ msg)
                              (store s)\<rparr>))
      | Inr current \<Rightarrow>
          (case save_snapshot (utc_now_iso ev s) current (store s) of
             Inl e \<Rightarrow> (Inl e, tick s)
           | Inr st1 \<Rightarrow>
               let s1 = tick (s\<lparr>store := st1\<rparr>);
                   evs = detect_profile_changes previous current
               in (case current ''username'' of
                     None \<Rightarrow> (Inl (KeyError ''username''), s1)
                   | Some u \<Rightarrow>
                       (case record_events (utc_now_iso ev s1) u evs (store s1) of
                          Inl e \<Rightarrow> (Inl e, tick s1)
                        | Inr st2 \<Rightarrow> (Inr True, tick (s1\<lparr>store := st2\<rparr>))))))"

text \<open>The \<open>for account in accounts\<close> loop of \<open>run_once\<close>, with its two counters.\<close>

fun check_accounts ::
  "env \<Rightarrow> string list \<Rightarrow> nat \<Rightarrow> nat \<Rightarrow> service \<Rightarrow> (error + nat \<times> nat) \<times> service" where
  "check_accounts ev [] checked failed s = (Inr (checked, failed), s)"
| "check_accounts ev (username # rest) checked failed s =
     (case check_account ev username s of
        (Inl e, s') \<Rightarrow> (Inl e, s')
      | (Inr ok, s') \<Rightarrow>
          if ok then check_accounts ev rest (checked + 1) failed s'
          else check_accounts ev rest checked (failed + 1) s')"

text \<open>The \<open>finally\<close> block of \<open>run_once\<close>.\<close>

definition run_finally :: "env \<Rightarrow> service \<Rightarrow> service" where
  "run_finally ev s = tick (s\<lparr>last_run_finished_at := Some (utc_now_iso ev s), run_lock := False\<rparr>)"

definition run_once :: "env \<Rightarrow> service \<Rightarrow> (error + summary) \<times> service" where
  "run_once ev s =
     (if run_lock s
      then (Inr \<lparr>sum_status = ''busy'', sum_accounts = 0, sum_checked = 0, sum_failed = 0\<rparr>, s)
      else
        let s1 = tick (s\<lparr>run_lock := True, last_run_started_at := Some (utc_now_iso ev s)\<rparr>);
            accounts = list_watch_accounts True (store s1)
        in (case check_accounts ev (map w_username accounts) 0 0 s1 of
              (Inl e, s2) \<Rightarrow> (Inl e, run_finally ev s2)
            | (Inr (checked, failed), s2) \<Rightarrow>
                let result = \<lparr>sum_status = ''ok'', sum_accounts = length accounts,
                               sum_checked = checked, sum_failed = failed\<rparr>
                in (Inr result, run_finally ev (s2\<lparr>last_run_summary := Some result\<rparr>))))"

section \<open>Dashboard actions (app.py)\<close>

text \<open>
  An action of the \<open>index\<close> view leaves a flash message and its kind in the session and
  may change the service. Only the three actions below are modelled.
\<close>

record flash =
  flash_msg :: string
  flash_kind :: string

definition reset_monitor_data :: "service \<Rightarrow> flash \<times> service" where
  "reset_monitor_data s =
     (if is_running s
      then (\<lparr>flash_msg = ''Stop the monitor before clearing data.'', flash_kind = ''error''\<rparr>, s)
      else (\<lparr>flash_msg = ''All watchlist/history/events/failures data cleared.'',
              flash_kind = ''success''\<rparr>,
            s\<lparr>store := clear_monitor_data (store s)\<rparr>))"

definition add_watch :: "env \<Rightarrow> string \<Rightarrow> service \<Rightarrow> flash \<times> service" where
  "add_watch ev form_value s =
     (let watch_username = strip form_value in
      case normalize_username watch_username of
        Inr normalized \<Rightarrow>
          (\<lparr>flash_msg = CHR ''@'' # normalized @ '' added to watchlist.'', flash_kind = ''success''\<rparr>,
           tick (s\<lparr>store := add_watch_account (utc_now_iso ev s) normalized (store s)\<rparr>))
      | Inl msg \<Rightarrow> (\<lparr>flash_msg = msg, flash_kind = ''error''\<rparr>, s))"

text \<open>
  \<open>check_watch_now\<close> hands the form value, without \<open>@\<close>, to \<open>check_account\<close>; it does
  not call \<open>normalize_username\<close> first. \<open>Inl e\<close> is an exception that leaves the view.
\<close>

definition check_watch_now :: "env \<Rightarrow> string \<Rightarrow> service \<Rightarrow> (error + flash) \<times> service" where
  "check_watch_now ev form_value s =
     (let watch_username = lstrip_chars (\<lambda>c. c = CHR ''@'') (strip form_value) in
      if watch_username = []
      then (Inr \<lparr>flash_msg = ''Missing watchlist username.'', flash_kind = ''error''\<rparr>, s)
      else
        (case check_account ev watch_username s of
           (Inl e, s') \<Rightarrow> (Inl e, s')
         | (Inr ok, s') \<Rightarrow>
             if ok
             then (Inr \<lparr>flash_msg = ''Manual check completed for @'' @ watch_username @ ''.'',
                        flash_kind = ''success''\<rparr>, s')
             else (Inr \<lparr>flash_msg = ''Manual check failed for @'' @ watch_username
                          @ ''. See failures below.'',
                        flash_kind = ''error''\<rparr>, s')))"

section \<open>Properties of change detection\<close>

subsection \<open>The loops as concatenations\<close>

lemma numeric_loop_concat:
  "numeric_loop p c fs evs = evs @ concat (map (numeric_event p c) fs)"
  by (induction fs arbitrary: evs)
     (auto simp: numeric_event_def split: option.splits)

lemma text_loop_concat:
  "text_loop p c fs evs = evs @ concat (map (text_event p c) fs)"
  by (induction fs arbitrary: evs) (auto simp: text_event_def Let_def)

lemma boolean_loop_concat:
  "boolean_loop p c fs evs = evs @ concat (map (boolean_event p c) fs)"
  by (induction fs arbitrary: evs) (auto simp: boolean_event_def Let_def)

lemma detect_concat:
  "detect_profile_changes (Some p) c =
     concat (map (numeric_event p c) NUMERIC_FIELDS)
     @ concat (map (text_event p c) TEXT_FIELDS)
     @ concat (map (boolean_event p c) BOOLEAN_FIELDS)"
  by (simp add: detect_profile_changes_def numeric_loop_concat text_loop_concat
      boolean_loop_concat)

lemma metric_numeric_event:
  "e \<in> set (numeric_event p c f) \<Longrightarrow> metric e = f"
  by (auto simp: numeric_event_def split: option.splits if_splits)

lemma metric_text_event:
  "e \<in> set (text_event p c f) \<Longrightarrow> metric e = f"
  by (auto simp: text_event_def Let_def split: if_splits)

lemma metric_boolean_event:
  "e \<in> set (boolean_event p c f) \<Longrightarrow> metric e = f"
  by (auto simp: boolean_event_def Let_def split: if_splits)

lemma filter_metric_numeric:
  "filter (\<lambda>e. metric e = g) (numeric_event p c f) = (if f = g then numeric_event p c f else [])"
  by (auto simp: filter_empty_conv filter_id_conv dest: metric_numeric_event)

lemma filter_metric_text:
  "filter (\<lambda>e. metric e = g) (text_event p c f) = (if f = g then text_event p c f else [])"
  by (auto simp: filter_empty_conv filter_id_conv dest: metric_text_event)

lemma filter_metric_boolean:
  "filter (\<lambda>e. metric e = g) (boolean_event p c f) = (if f = g then boolean_event p c f else [])"
  by (auto simp: filter_empty_conv filter_id_conv dest: metric_boolean_event)

lemma events_for_numeric_field:
  assumes "field \<in> set NUMERIC_FIELDS"
  shows "filter (\<lambda>e. metric e = field) (detect_profile_changes (Some p) c) = numeric_event p c field"
  using assms
  by (auto simp: detect_concat NUMERIC_FIELDS_def TEXT_FIELDS_def BOOLEAN_FIELDS_def
      filter_metric_numeric filter_metric_text filter_metric_boolean)

subsection \<open>Claims about \<open>detect_profile_changes\<close>\<close>

text \<open>
  Claim C7. For every current snapshot, detection with no previous snapshot returns the
  empty list: a first observation is a baseline and is never reported as a change.
\<close>

theorem detect_none_is_empty:
  "detect_profile_changes None current = []"
  by (simp add: detect_profile_changes_def)

text \<open>
  Claim C2. For every pair of snapshots and every numeric field (followers, following,
  likes, videos_count): when either side does not parse as an integer, no event with that
  metric is emitted, whatever the two texts are; when the sides parse to \<open>a\<close> and \<open>b\<close>
  with \<open>a \<noteq> b\<close>, exactly one event with that metric is emitted, and it carries
  \<open>old_value = a\<close>, \<open>new_value = b\<close>, \<open>delta = b - a\<close> and the message with the signed delta.
\<close>

theorem detect_numeric_field:
  assumes "field \<in> set NUMERIC_FIELDS"
  shows "(as_int (dict_get previous field) = None \<or> as_int (dict_get current field) = None \<longrightarrow>
            filter (\<lambda>e. metric e = field) (detect_profile_changes (Some previous) current) = [])
       \<and> (\<forall>a b. as_int (dict_get previous field) = Some a \<and>
                 as_int (dict_get current field) = Some b \<and> a \<noteq> b \<longrightarrow>
            filter (\<lambda>e. metric e = field) (detect_profile_changes (Some previous) current) =
              [\<lparr>metric = field, old_value = PInt a, new_value = PInt b, delta = PInt (b - a),
                message = field @ '' changed from '' @ str_int a @ '' to '' @ str_int b
                  @ '' ('' @ format_signed (b - a) @ '').''\<rparr>])"
  unfolding events_for_numeric_field [OF assms]
  by (auto simp: numeric_event_def split: option.splits)

theorem detect_numeric_field_witness:
  "''followers'' \<in> set NUMERIC_FIELDS
   \<and> as_int (dict_get [''followers'' \<mapsto> PInt 100] ''followers'') = Some 100
   \<and> as_int (dict_get [''followers'' \<mapsto> PStr ''150''] ''followers'') = Some 150
   \<and> filter (\<lambda>e. metric e = ''followers'')
         (detect_profile_changes (Some [''followers'' \<mapsto> PInt 100]) [''followers'' \<mapsto> PStr ''150''])
       = [\<lparr>metric = ''followers'', old_value = PInt 100, new_value = PInt 150, delta = PInt 50,
            message = ''followers changed from 100 to 150 (+50).''\<rparr>]
   \<and> as_int (dict_get [''followers'' \<mapsto> PStr ''n/a''] ''followers'') = None
   \<and> filter (\<lambda>e. metric e = ''followers'')
         (detect_profile_changes (Some [''followers'' \<mapsto> PStr ''n/a'']) [''followers'' \<mapsto> PInt 7]) = []"
proof -
  have f: "''followers'' \<in> set NUMERIC_FIELDS"
    by (simp add: NUMERIC_FIELDS_def)
  have a: "as_int (dict_get [''followers'' \<mapsto> PInt 100] ''followers'') = Some 100"
    by (simp add: as_int_def dict_get_def)
  have b: "as_int (dict_get [''followers'' \<mapsto> PStr ''150''] ''followers'') = Some 150"
    by (simp add: as_int_def dict_get_def int_of_str_def strip_def is_space_def is_digit_def
        digit_val_def)
  have c: "as_int (dict_get [''followers'' \<mapsto> PStr ''n/a''] ''followers'') = None"
    by (simp add: as_int_def dict_get_def int_of_str_def strip_def is_space_def is_digit_def
        digit_val_def)
  have s: "str_int 100 = ''100''" "str_int 150 = ''150''" "format_signed 50 = ''+50''"
    by code_simp+
  from detect_numeric_field [OF f, of "[''followers'' \<mapsto> PInt 100]" "[''followers'' \<mapsto> PStr ''150'']"]
    detect_numeric_field [OF f, of "[''followers'' \<mapsto> PStr ''n/a'']" "[''followers'' \<mapsto> PInt 7]"]
    a b c f s
  show ?thesis by simp
qed

lemma metrics_numeric_event:
  "map metric (numeric_event p c f) = (if numeric_event p c f = [] then [] else [f])"
  by (auto simp: numeric_event_def split: option.splits)

lemma metrics_text_event:
  "map metric (text_event p c f) = (if text_event p c f = [] then [] else [f])"
  by (auto simp: text_event_def Let_def)

lemma metrics_boolean_event:
  "map metric (boolean_event p c f) = (if boolean_event p c f = [] then [] else [f])"
  by (auto simp: boolean_event_def Let_def)

lemma metrics_concat:
  assumes "\<And>f. map metric (ev f) = (if ev f = [] then [] else [f])"
  shows "map metric (concat (map ev fs)) = filter (\<lambda>f. ev f \<noteq> []) fs"
  by (induction fs) (simp_all add: assms)

lemma metrics_detect:
  "map metric (detect_profile_changes (Some p) c) =
     filter (\<lambda>f. numeric_event p c f \<noteq> []) NUMERIC_FIELDS
     @ filter (\<lambda>f. text_event p c f \<noteq> []) TEXT_FIELDS
     @ filter (\<lambda>f. boolean_event p c f \<noteq> []) BOOLEAN_FIELDS"
  by (simp add: detect_concat metrics_concat [OF metrics_numeric_event]
      metrics_concat [OF metrics_text_event] metrics_concat [OF metrics_boolean_event])

lemma metrics_detect_subseq:
  "subseq (map metric (detect_profile_changes (Some p) c))
     (NUMERIC_FIELDS @ TEXT_FIELDS @ BOOLEAN_FIELDS)"
  unfolding metrics_detect
  by (intro list_emb_append_mono subseq_filter_left)

text \<open>
  Claim C6. With a previous snapshot present, the metrics of the returned events follow the
  fixed evaluation order: they form a subsequence of followers, following, likes,
  videos_count, nickname, bio, verified. In particular, when followers, bio and verified
  change together, their events come in the order followers, bio, verified.
\<close>

theorem detect_event_order:
  "subseq (map metric (detect_profile_changes (Some previous) current))
     [''followers'', ''following'', ''likes'', ''videos_count'', ''nickname'', ''bio'', ''verified'']
   \<and> (\<forall>a b. as_int (dict_get previous ''followers'') = Some a
          \<and> as_int (dict_get current ''followers'') = Some b \<and> a \<noteq> b
          \<and> \<not> py_eq (dict_get previous ''bio'') (dict_get current ''bio'')
          \<and> py_bool (dict_get previous ''verified'') \<noteq> py_bool (dict_get current ''verified'')
        \<longrightarrow> filter (\<lambda>m. m \<in> {''followers'', ''bio'', ''verified''})
              (map metric (detect_profile_changes (Some previous) current))
            = [''followers'', ''bio'', ''verified''])"
proof
  show "subseq (map metric (detect_profile_changes (Some previous) current))
     [''followers'', ''following'', ''likes'', ''videos_count'', ''nickname'', ''bio'', ''verified'']"
    using metrics_detect_subseq [of previous current]
    by (simp add: NUMERIC_FIELDS_def TEXT_FIELDS_def BOOLEAN_FIELDS_def)
next
  show "\<forall>a b. as_int (dict_get previous ''followers'') = Some a
          \<and> as_int (dict_get current ''followers'') = Some b \<and> a \<noteq> b
          \<and> \<not> py_eq (dict_get previous ''bio'') (dict_get current ''bio'')
          \<and> py_bool (dict_get previous ''verified'') \<noteq> py_bool (dict_get current ''verified'')
        \<longrightarrow> filter (\<lambda>m. m \<in> {''followers'', ''bio'', ''verified''})
              (map metric (detect_profile_changes (Some previous) current))
            = [''followers'', ''bio'', ''verified'']"
    by (auto simp: metrics_detect NUMERIC_FIELDS_def TEXT_FIELDS_def BOOLEAN_FIELDS_def
        numeric_event_def text_event_def boolean_event_def Let_def)
qed

theorem detect_event_order_witness:
  "as_int (dict_get [''followers'' \<mapsto> PInt 100, ''bio'' \<mapsto> PStr ''old'', ''verified'' \<mapsto> PInt 0]
      ''followers'') = Some 100
   \<and> as_int (dict_get [''followers'' \<mapsto> PInt 150, ''bio'' \<mapsto> PStr ''new'', ''verified'' \<mapsto> PBool True]
      ''followers'') = Some 150
   \<and> map metric (detect_profile_changes
        (Some [''followers'' \<mapsto> PInt 100, ''bio'' \<mapsto> PStr ''old'', ''verified'' \<mapsto> PInt 0])
        [''followers'' \<mapsto> PInt 150, ''bio'' \<mapsto> PStr ''new'', ''verified'' \<mapsto> PBool True])
      = [''followers'', ''bio'', ''verified'']
   \<and> filter (\<lambda>m. m \<in> {''followers'', ''bio'', ''verified''})
        (map metric (detect_profile_changes
          (Some [''followers'' \<mapsto> PInt 100, ''bio'' \<mapsto> PStr ''old'', ''verified'' \<mapsto> PInt 0])
          [''followers'' \<mapsto> PInt 150, ''bio'' \<mapsto> PStr ''new'', ''verified'' \<mapsto> PBool True]))
      = [''followers'', ''bio'', ''verified'']"
proof -
  let ?p = "[''followers'' \<mapsto> PInt 100, ''bio'' \<mapsto> PStr ''old'', ''verified'' \<mapsto> PInt 0]"
  let ?c = "[''followers'' \<mapsto> PInt 150, ''bio'' \<mapsto> PStr ''new'', ''verified'' \<mapsto> PBool True]"
  have a: "as_int (dict_get ?p ''followers'') = Some 100"
    and b: "as_int (dict_get ?c ''followers'') = Some 150"
    and t: "\<not> py_eq (dict_get ?p ''bio'') (dict_get ?c ''bio'')"
    and v: "py_bool (dict_get ?p ''verified'') \<noteq> py_bool (dict_get ?c ''verified'')"
    by (simp_all add: as_int_def dict_get_def)
  have m: "map metric (detect_profile_changes (Some ?p) ?c) = [''followers'', ''bio'', ''verified'']"
    by (simp add: detect_profile_changes_def NUMERIC_FIELDS_def TEXT_FIELDS_def
        BOOLEAN_FIELDS_def as_int_def dict_get_def)
  from detect_event_order [of ?p ?c] a b t v m show ?thesis
    by simp
qed

section \<open>Properties of the store\<close>

subsection \<open>Registry rows under the statements\<close>

lemma usernames_update_account_checked:
  "map w_username (watch_accounts (update_account_checked t e u st)) =
     map w_username (watch_accounts st)"
  by (induction "watch_accounts st" arbitrary: st)
     (auto simp: update_account_checked_def)

lemma filter_others_update:
  assumes "\<And>r. w_username (g r) = w_username r"
  shows "filter (\<lambda>r. w_username r \<noteq> u) (map (\<lambda>r. if w_username r = u then g r else r) xs)
       = filter (\<lambda>r. w_username r \<noteq> u) xs"
  by (induction xs) (auto simp: assms)

lemma record_failure_tables:
  "failures (record_failure now username err st) =
     failures st @ [\<lparr>f_id = Suc (failures_seq st), f_username = username,
                     f_checked_at = now, f_error = err\<rparr>]"
  "snapshots (record_failure now username err st) = snapshots st"
  "events (record_failure now username err st) = events st"
  "settings (record_failure now username err st) = settings st"
  by (simp_all add: record_failure_def update_account_checked_def insert_failure_def
      insert_account_or_nothing_def)

lemma record_failure_registry:
  "watch_accounts (record_failure now username err st) =
     (if username \<in> set (map w_username (watch_accounts st))
      then map (\<lambda>r. if w_username r = username
                     then r\<lparr>w_last_checked_at := Some now, w_last_error := Some err\<rparr> else r)
             (watch_accounts st)
      else watch_accounts st @
             [\<lparr>w_username = username, w_created_at = now, w_active = 1,
               w_last_checked_at = Some now, w_last_error = Some err\<rparr>])"
  by (auto simp: record_failure_def update_account_checked_def insert_failure_def
      insert_account_or_nothing_def intro!: map_idI)

lemma deactivate_result:
  "fst (deactivate_watch_account u st) = (u \<in> set (map w_username (watch_accounts st)))"
  by (auto simp: deactivate_watch_account_def Let_def filter_empty_conv)

lemma deactivate_unknown:
  assumes "u \<notin> set (map w_username (watch_accounts st))"
  shows "deactivate_watch_account u st = (False, st)"
proof -
  have "map (\<lambda>r. if w_username r = u then r\<lparr>w_active := 0\<rparr> else r) (watch_accounts st)
      = watch_accounts st"
    using assms by (auto intro!: map_idI)
  then show ?thesis
    using assms by (auto simp: deactivate_watch_account_def Let_def filter_empty_conv)
qed

subsection \<open>Deactivation\<close>

text \<open>
  Claim C5. Deactivation should return true exactly when a row for the handle existed and
  was active, and false for an unknown or an already inactive handle. The \<open>UPDATE\<close>
  counts every row that its \<open>WHERE username = ?\<close> selects, whatever the flag was: on a
  registry that holds \<open>bob\<close> as an inactive account the method returns \<open>True\<close> and
  leaves the store as it was. (\<open>deactivate_result\<close> and \<open>deactivate_unknown\<close> above give the
  general picture: the result says whether a row exists, and an unknown handle creates
  none.)
\<close>

theorem deactivate_inactive_returns_true:
  "deactivate_watch_account ''bob''
     \<lparr>watch_accounts = [\<lparr>w_username = ''bob'', w_created_at = ''2024-01-01T00:00:00+00:00'',
          w_active = 0, w_last_checked_at = None, w_last_error = None\<rparr>],
      snapshots = [], events = [], failures = [], settings = [],
      snapshots_seq = 0, events_seq = 0, failures_seq = 0\<rparr>
   = (True,
      \<lparr>watch_accounts = [\<lparr>w_username = ''bob'', w_created_at = ''2024-01-01T00:00:00+00:00'',
          w_active = 0, w_last_checked_at = None, w_last_error = None\<rparr>],
      snapshots = [], events = [], failures = [], settings = [],
      snapshots_seq = 0, events_seq = 0, failures_seq = 0\<rparr>)"
  by (simp add: deactivate_watch_account_def)

subsection \<open>Saving a snapshot\<close>










subsection \<open>The data reset\<close>

text \<open>
  What the reset action does. While the monitor thread runs, it reports an error and
  changes nothing. Otherwise it reports success and the four tables watch_accounts,
  snapshots, events and failures end up empty; the four \<open>DELETE\<close> statements are
  committed one by one, in the order events, failures, snapshots, watch_accounts.
\<close>

lemma reset_monitor_data_effect:
  "(is_running s \<longrightarrow>
      reset_monitor_data s =
        (\<lparr>flash_msg = ''Stop the monitor before clearing data.'', flash_kind = ''error''\<rparr>, s))
   \<and> (\<not> is_running s \<longrightarrow>
        flash_kind (fst (reset_monitor_data s)) = ''success''
        \<and> snd (reset_monitor_data s) = s\<lparr>store := clear_monitor_data (store s)\<rparr>)
   \<and> watch_accounts (clear_monitor_data st) = []
   \<and> snapshots (clear_monitor_data st) = []
   \<and> events (clear_monitor_data st) = []
   \<and> failures (clear_monitor_data st) = []
   \<and> clear_monitor_data_commits st =
       [st\<lparr>events := []\<rparr>,
        st\<lparr>events := [], failures := []\<rparr>,
        st\<lparr>events := [], failures := [], snapshots := []\<rparr>,
        st\<lparr>events := [], failures := [], snapshots := [], watch_accounts := []\<rparr>]"
  by (simp add: reset_monitor_data_def clear_monitor_data_def clear_monitor_data_commits_def
      Let_def)

lemma reset_monitor_data_effect_example:
  "is_running ((initial_service (add_watch_account ''2024-05-01T09:00:00+00:00'' ''alice''
        initial_store) 900)\<lparr>thread := Some True\<rparr>)
   \<and> snd (reset_monitor_data ((initial_service (add_watch_account ''2024-05-01T09:00:00+00:00''
        ''alice'' initial_store) 900)\<lparr>thread := Some True\<rparr>))
      = (initial_service (add_watch_account ''2024-05-01T09:00:00+00:00'' ''alice''
        initial_store) 900)\<lparr>thread := Some True\<rparr>
   \<and> \<not> is_running (initial_service (add_watch_account ''2024-05-01T09:00:00+00:00'' ''alice''
        initial_store) 900)
   \<and> watch_accounts (store (snd (reset_monitor_data (initial_service
        (add_watch_account ''2024-05-01T09:00:00+00:00'' ''alice'' initial_store) 900)))) = []"
proof -
  let ?s = "initial_service (add_watch_account ''2024-05-01T09:00:00+00:00'' ''alice''
        initial_store) 900"
  have r: "is_running (?s\<lparr>thread := Some True\<rparr>)"
    by (simp add: is_running_def)
  have n: "\<not> is_running ?s"
    by (simp add: is_running_def initial_service_def)
  from reset_monitor_data_effect [of "?s\<lparr>thread := Some True\<rparr>" "store ?s"]
    reset_monitor_data_effect [of ?s "store ?s"] r n
  show ?thesis by simp
qed

text \<open>
  Claim C9. A data reset is rejected with no change while the scheduler runs, and while it
  is stopped it empties snapshots, events, failures and registry entries atomically.
  The rejection and the empty tables at the end hold (\<open>reset_monitor_data_effect\<close>). The
  \<open>with self._connect() as conn:\<close> block that makes \<open>save_snapshot\<close> and
  \<open>record_failure\<close> one transaction does not do so here, because \<open>executescript\<close> runs
  its statements outside it: after the first \<open>DELETE\<close> the database, as committed, holds
  no event but still the account and its failure.
\<close>

theorem clear_monitor_data_first_commit:
  "hd (clear_monitor_data_commits
     \<lparr>watch_accounts =
        [\<lparr>w_username = ''bob'', w_created_at = ''2024-04-01T08:00:00+00:00'', w_active = 1,
          w_last_checked_at = Some ''2024-04-02T08:00:00+00:00'',
          w_last_error = Some ''Could not read profile payload.''\<rparr>],
      snapshots = [],
      events =
        [\<lparr>e_id = 1, e_username = ''bob'', e_detected_at = ''2024-04-01T09:00:00+00:00'',
          e_metric = ''bio'', e_old_value = None, e_new_value = Some ''hello'', e_delta = None,
          e_message = ''bio changed.''\<rparr>],
      failures =
        [\<lparr>f_id = 1, f_username = ''bob'', f_checked_at = ''2024-04-02T08:00:00+00:00'',
          f_error = ''Could not read profile payload.''\<rparr>],
      settings = [], snapshots_seq = 1, events_seq = 1, failures_seq = 1\<rparr>)
   = \<lparr>watch_accounts =
        [\<lparr>w_username = ''bob'', w_created_at = ''2024-04-01T08:00:00+00:00'', w_active = 1,
          w_last_checked_at = Some ''2024-04-02T08:00:00+00:00'',
          w_last_error = Some ''Could not read profile payload.''\<rparr>],
      snapshots = [],
      events = [],
      failures =
        [\<lparr>f_id = 1, f_username = ''bob'', f_checked_at = ''2024-04-02T08:00:00+00:00'',
          f_error = ''Could not read profile payload.''\<rparr>],
      settings = [], snapshots_seq = 1, events_seq = 1, failures_seq = 1\<rparr>"
  by (simp add: clear_monitor_data_commits_def Let_def)

text \<open>
  Claim C10. A data reset leaves the settings table as it was: \<open>clear_monitor_data\<close> and
  each state it commits on the way have the settings of the start, every key reads as
  before, also through the reset action, which does not touch the interval of the service
  either.
\<close>

theorem reset_keeps_settings:
  "settings (clear_monitor_data st) = settings st
   \<and> list_all (\<lambda>c. settings c = settings st) (clear_monitor_data_commits st)
   \<and> get_setting key (clear_monitor_data st) = get_setting key st
   \<and> settings (store (snd (reset_monitor_data s))) = settings (store s)
   \<and> get_setting key (store (snd (reset_monitor_data s))) = get_setting key (store s)
   \<and> interval_seconds (snd (reset_monitor_data s)) = interval_seconds s"
  by (simp add: clear_monitor_data_def clear_monitor_data_commits_def get_setting_def Let_def
      reset_monitor_data_def)

section \<open>Properties of the monitor service\<close>

lemma check_account_on_fetch_error:
  assumes "fetch_tiktok_profile ev (ticks s) username = Inl err"
  shows "check_account ev username s =
     (Inr False,
      tick (s\<lparr>store := record_failure (utc_now_iso ev s) username (failure_text err) (store s)\<rparr>))"
  using assms by (cases err) (simp_all add: check_account_def)

text \<open>
  Claim C3. For every handle, when the fetcher raises (a \<open>TikTokScrapeError\<close> or any other
  \<open>Exception\<close>), \<open>check_account\<close> returns \<open>False\<close> and raises nothing; exactly one
  failure row is appended, with the text of the error; a registry row for the handle exists
  afterwards, and every such row has that text as \<open>last_error\<close> and the time of the check
  as \<open>last_checked_at\<close>; the other registry rows, the snapshots and the events are as
  before.
\<close>

theorem check_account_fetch_failure:
  assumes "fetch_tiktok_profile ev (ticks s) username = Inl err"
  shows "\<exists>s'. check_account ev username s = (Inr False, s')
     \<and> failures (store s') =
         failures (store s) @
           [\<lparr>f_id = Suc (failures_seq (store s)), f_username = username,
             f_checked_at = utc_now_iso ev s, f_error = failure_text err\<rparr>]
     \<and> snapshots (store s') = snapshots (store s)
     \<and> events (store s') = events (store s)
     \<and> username \<in> set (map w_username (watch_accounts (store s')))
     \<and> (\<forall>r \<in> set (watch_accounts (store s')). w_username r = username \<longrightarrow>
            w_last_error r = Some (failure_text err)
            \<and> w_last_checked_at r = Some (utc_now_iso ev s))
     \<and> filter (\<lambda>r. w_username r \<noteq> username) (watch_accounts (store s'))
         = filter (\<lambda>r. w_username r \<noteq> username) (watch_accounts (store s))"
proof -
  let ?st' = "record_failure (utc_now_iso ev s) username (failure_text err) (store s)"
  let ?s' = "tick (s\<lparr>store := ?st'\<rparr>)"
  have st: "store ?s' = ?st'"
    by (simp add: tick_def)
  have run: "check_account ev username s = (Inr False, ?s')"
    by (rule check_account_on_fetch_error [OF assms])
  have present: "username \<in> set (map w_username (watch_accounts ?st'))"
    unfolding record_failure_def Let_def usernames_update_account_checked
    by (simp add: insert_failure_def insert_account_or_nothing_def)
  have marked: "\<forall>r \<in> set (watch_accounts ?st'). w_username r = username \<longrightarrow>
      w_last_error r = Some (failure_text err) \<and> w_last_checked_at r = Some (utc_now_iso ev s)"
    by (auto simp: record_failure_registry)
  have others: "filter (\<lambda>r. w_username r \<noteq> username) (watch_accounts ?st')
      = filter (\<lambda>r. w_username r \<noteq> username) (watch_accounts (store s))"
    by (simp add: record_failure_registry filter_others_update)
  show ?thesis
    using run present marked others by (intro exI [of _ ?s']) (simp add: st record_failure_tables)
qed

theorem check_account_fetch_failure_witness:
  "fetch_tiktok_profile
      \<lparr>clock = (\<lambda>n. ''2024-05-01T10:00:00+00:00''),
        scrape = (\<lambda>n h. Inl (TikTokScrapeError ''Could not read profile payload.''))\<rparr>
      (ticks (initial_service initial_store 900)) ''bob''
     = Inl (TikTokScrapeError ''Could not read profile payload.'')
   \<and> fst (check_account
        \<lparr>clock = (\<lambda>n. ''2024-05-01T10:00:00+00:00''),
          scrape = (\<lambda>n h. Inl (TikTokScrapeError ''Could not read profile payload.''))\<rparr>
        ''bob'' (initial_service initial_store 900)) = Inr False
   \<and> failures (store (snd (check_account
        \<lparr>clock = (\<lambda>n. ''2024-05-01T10:00:00+00:00''),
          scrape = (\<lambda>n h. Inl (TikTokScrapeError ''Could not read profile payload.''))\<rparr>
        ''bob'' (initial_service initial_store 900))))
      = [\<lparr>f_id = 1, f_username = ''bob'', f_checked_at = ''2024-05-01T10:00:00+00:00'',
           f_error = ''Could not read profile payload.''\<rparr>]
   \<and> snapshots (store (snd (check_account
        \<lparr>clock = (\<lambda>n. ''2024-05-01T10:00:00+00:00''),
          scrape = (\<lambda>n h. Inl (TikTokScrapeError ''Could not read profile payload.''))\<rparr>
        ''bob'' (initial_service initial_store 900)))) = []"
proof -
  let ?ev = "\<lparr>clock = (\<lambda>n. ''2024-05-01T10:00:00+00:00''),
          scrape = (\<lambda>n h. Inl (TikTokScrapeError ''Could not read profile payload.''))\<rparr>"
  let ?s = "initial_service initial_store 900"
  have n: "normalize_username ''bob'' = Inr ''bob''"
    by code_simp
  have h: "fetch_tiktok_profile ?ev (ticks ?s) ''bob''
      = Inl (TikTokScrapeError ''Could not read profile payload.'')"
    by (simp add: fetch_tiktok_profile_def n)
  from check_account_fetch_failure [OF h] obtain s' where
    "check_account ?ev ''bob'' ?s = (Inr False, s')"
    "failures (store s') = failures (store ?s) @
       [\<lparr>f_id = Suc (failures_seq (store ?s)), f_username = ''bob'',
         f_checked_at = utc_now_iso ?ev ?s,
         f_error = failure_text (TikTokScrapeError ''Could not read profile payload.'')\<rparr>]"
    "snapshots (store s') = snapshots (store ?s)"
    by blast
  with h show ?thesis
    by (simp add: initial_service_def initial_store_def utc_now_iso_def)
qed

text \<open>
  Claim C1. When the run lock is held, \<open>run_once\<close> returns the summary with status
  \<open>busy\<close> and the service, its store and its last-run fields are exactly as before: no
  account is checked and nothing is written. The result can be told apart from a cycle
  that ran: a call that finds the lock free and returns has status \<open>ok\<close>.
\<close>

theorem run_once_busy:
  "(run_lock s \<longrightarrow>
      run_once ev s =
        (Inr \<lparr>sum_status = ''busy'', sum_accounts = 0, sum_checked = 0, sum_failed = 0\<rparr>, s))
   \<and> (\<not> run_lock s \<longrightarrow>
        (\<forall>r. fst (run_once ev s) = Inr r \<longrightarrow> sum_status r = ''ok''))"
  by (auto simp: run_once_def Let_def split: prod.splits sum.splits)

theorem run_once_busy_witness:
  "run_lock ((initial_service
       (add_watch_account ''2024-05-01T09:00:00+00:00'' ''alice'' initial_store) 900)
       \<lparr>run_lock := True\<rparr>)
   \<and> run_once
        \<lparr>clock = (\<lambda>n. ''2024-05-01T10:00:00+00:00''),
          scrape = (\<lambda>n h. Inl (TikTokScrapeError ''Could not read profile payload.''))\<rparr>
        ((initial_service
           (add_watch_account ''2024-05-01T09:00:00+00:00'' ''alice'' initial_store) 900)
           \<lparr>run_lock := True\<rparr>)
      = (Inr \<lparr>sum_status = ''busy'', sum_accounts = 0, sum_checked = 0, sum_failed = 0\<rparr>,
         (initial_service
           (add_watch_account ''2024-05-01T09:00:00+00:00'' ''alice'' initial_store) 900)
           \<lparr>run_lock := True\<rparr>)
   \<and> \<not> run_lock (initial_service initial_store 900)
   \<and> fst (run_once
        \<lparr>clock = (\<lambda>n. ''2024-05-01T10:00:00+00:00''),
          scrape = (\<lambda>n h. Inl (TikTokScrapeError ''Could not read profile payload.''))\<rparr>
        (initial_service initial_store 900))
      = Inr \<lparr>sum_status = ''ok'', sum_accounts = 0, sum_checked = 0, sum_failed = 0\<rparr>"
proof -
  let ?ev = "\<lparr>clock = (\<lambda>n. ''2024-05-01T10:00:00+00:00''),
          scrape = (\<lambda>n h. Inl (TikTokScrapeError ''Could not read profile payload.''))\<rparr>"
  let ?busy = "(initial_service
       (add_watch_account ''2024-05-01T09:00:00+00:00'' ''alice'' initial_store) 900)
       \<lparr>run_lock := True\<rparr>"
  have held: "run_lock ?busy"
    by simp
  have free: "\<not> run_lock (initial_service initial_store 900)"
    by (simp add: initial_service_def)
  have ok: "fst (run_once ?ev (initial_service initial_store 900))
      = Inr \<lparr>sum_status = ''ok'', sum_accounts = 0, sum_checked = 0, sum_failed = 0\<rparr>"
    by (simp add: run_once_def initial_service_def initial_store_def list_watch_accounts_def
        tick_def Let_def)
  from run_once_busy [of ?busy ?ev] run_once_busy [of "initial_service initial_store 900" ?ev]
    held free ok
  show ?thesis by simp
qed

section \<open>Properties of handle normalization\<close>

lemma handle_char_alphabet:
  "\<forall>c. handle_char c =
     (c \<in> set ''ABCDEFGHIJKLMNOPQRSTUVWXYZabcdefghijklmnopqrstuvwxyz0123456789._'')"
  by code_simp

lemma handle_match_alphabet:
  "handle_match s =
     (2 \<le> length s \<and> length s \<le> 24
      \<and> set s \<subseteq> set ''ABCDEFGHIJKLMNOPQRSTUVWXYZabcdefghijklmnopqrstuvwxyz0123456789._'')"
proof -
  have "list_all handle_char s =
      (set s \<subseteq> set ''ABCDEFGHIJKLMNOPQRSTUVWXYZabcdefghijklmnopqrstuvwxyz0123456789._'')"
    unfolding list_all_iff using handle_char_alphabet by blast
  then show ?thesis
    by (simp only: handle_match_def)
qed

text \<open>
  What normalization computes. For every input, \<open>normalize_username\<close> returns the input
  with surrounding whitespace removed, then every leading \<open>@\<close> removed, then lowercased,
  exactly when that string has 2 to 24 characters, all of them among the letters, the
  digits, the dot and the underscore; every other input is rejected with the message
  "Please enter a valid TikTok username.". The add-to-watchlist action then shows that
  message as an error and leaves the service and its store untouched.
\<close>

lemma normalize_username_result:
  "normalize_username s =
     (if 2 \<le> length (lower (lstrip_chars (\<lambda>c. c = CHR ''@'') (strip s)))
         \<and> length (lower (lstrip_chars (\<lambda>c. c = CHR ''@'') (strip s))) \<le> 24
         \<and> set (lower (lstrip_chars (\<lambda>c. c = CHR ''@'') (strip s)))
             \<subseteq> set ''ABCDEFGHIJKLMNOPQRSTUVWXYZabcdefghijklmnopqrstuvwxyz0123456789._''
      then Inr (lower (lstrip_chars (\<lambda>c. c = CHR ''@'') (strip s)))
      else Inl ''Please enter a valid TikTok username.'')
   \<and> (\<forall>msg. normalize_username (strip form_value) = Inl msg \<longrightarrow>
         add_watch ev form_value sv = (\<lparr>flash_msg = msg, flash_kind = ''error''\<rparr>, sv))"
  by (simp add: normalize_username_def Let_def handle_match_alphabet add_watch_def)

text \<open>
  Read as the input without one leading \<open>@\<close>, lowercased, the normal form of \<open>@@ab\<close> would
  be \<open>@ab\<close>, which does not match the pattern; \<open>lstrip\<close> removes every leading \<open>@\<close>, and
  the input is accepted as \<open>ab\<close>:
\<close>

lemma normalize_username_strips_every_at:
  "normalize_username ''@@ab'' = Inr ''ab''
   \<and> spec_normal_form ''@@ab'' = ''@ab''
   \<and> \<not> handle_match (spec_normal_form ''@@ab'')"
  by code_simp

lemma normalize_username_result_example:
  "normalize_username '' @@Bob_1 '' = Inr ''bob_1''
   \<and> normalize_username (strip ''x'') = Inl ''Please enter a valid TikTok username.''
   \<and> add_watch
        \<lparr>clock = (\<lambda>n. ''2024-05-01T10:00:00+00:00''),
          scrape = (\<lambda>n h. Inl (TikTokScrapeError ''Could not read profile payload.''))\<rparr>
        ''x'' (initial_service initial_store 900) =
       (\<lparr>flash_msg = ''Please enter a valid TikTok username.'', flash_kind = ''error''\<rparr>,
        initial_service initial_store 900)"
proof -
  have a: "lower (lstrip_chars (\<lambda>c. c = CHR ''@'') (strip '' @@Bob_1 '')) = ''bob_1''"
    by code_simp
  have b: "normalize_username (strip ''x'') = Inl ''Please enter a valid TikTok username.''"
    by code_simp
  from normalize_username_result [of " '' @@Bob_1 ''" "''x''"
      "\<lparr>clock = (\<lambda>n. ''2024-05-01T10:00:00+00:00''),
        scrape = (\<lambda>n h. Inl (TikTokScrapeError ''Could not read profile payload.''))\<rparr>"
      "initial_service initial_store 900"] a b
  show ?thesis by simp
qed

text \<open>
  Claim C8. An input whose normal form does not match \<open>[A-Za-z0-9._]{2,24}\<close> is rejected
  with a validation error before it reaches durable state, and nothing is persisted for
  it. The add-to-watchlist action keeps to that (\<open>normalize_username_result\<close>). The
  check-now action does not validate before it calls \<open>check_account\<close>: for the one-letter
  handle \<open>x\<close> the fetcher raises the validation error, \<open>check_account\<close> records it as
  a failed check, and the store then holds \<open>x\<close> as an active account together with a
  failure row for it. The fetcher of the example would return a profile for any handle
  that passes validation.
\<close>

theorem check_watch_now_persists_malformed_handle:
  "normalize_username ''x'' = Inl ''Please enter a valid TikTok username.''
   \<and> check_watch_now
        \<lparr>clock = (\<lambda>n. ''2024-05-01T10:00:00+00:00''),
          scrape = (\<lambda>n h. Inr [''username'' \<mapsto> PStr h, ''followers'' \<mapsto> PInt 100])\<rparr>
        ''x'' (initial_service initial_store 900)
      = (Inr \<lparr>flash_msg = ''Manual check failed for @x. See failures below.'',
               flash_kind = ''error''\<rparr>,
         \<lparr>store =
            \<lparr>watch_accounts =
               [\<lparr>w_username = ''x'', w_created_at = ''2024-05-01T10:00:00+00:00'', w_active = 1,
                 w_last_checked_at = Some ''2024-05-01T10:00:00+00:00'',
                 w_last_error = Some ''Please enter a valid TikTok username.''\<rparr>],
             snapshots = [], events = [],
             failures =
               [\<lparr>f_id = 1, f_username = ''x'', f_checked_at = ''2024-05-01T10:00:00+00:00'',
                 f_error = ''Please enter a valid TikTok username.''\<rparr>],
             settings = [], snapshots_seq = 0, events_seq = 0, failures_seq = 1\<rparr>,
          interval_seconds = 900, stop_event = False, run_lock = False, thread = None,
          last_run_started_at = None, last_run_finished_at = None, last_run_summary = None,
          ticks = 1\<rparr>)"
proof -
  have n: "normalize_username ''x'' = Inl ''Please enter a valid TikTok username.''"
    by code_simp
  have s: "lstrip_chars (\<lambda>c. c = CHR ''@'') (strip ''x'') = ''x''"
    by code_simp
  show ?thesis
    by (simp add: n s check_watch_now_def check_account_def fetch_tiktok_profile_def
        get_latest_snapshot_def record_failure_def insert_failure_def
        insert_account_or_nothing_def update_account_checked_def initial_service_def
        initial_store_def utc_now_iso_def tick_def Let_def)
qed

end
